theory Spec2Isabelle
  imports Main "HOL-Library.Sublist"
begin

section \<open>Python strings\<close>

text \<open>
  A Python \<^verbatim>\<open>str\<close> is a sequence of Unicode code points, and \<^verbatim>\<open>len\<close> counts code
  points. A code point is a natural number; \<open>str\<close> turns an ASCII literal of the
  theory into such a sequence.
\<close>

type_synonym pystr = "nat list"

definition str :: "string \<Rightarrow> pystr" where
  "str cs = map of_char cs"

section \<open>Column padding (\<^verbatim>\<open>pad_string\<close>)\<close>

text \<open>
  \<^verbatim>\<open>wcswidth\<close> is imported from the \<^verbatim>\<open>wcwidth\<close> package, which is not part of the
  repository, so \<open>pad_string\<close> takes it as its first argument. The body is the source's:
  \<^verbatim>\<open>visual_len = wcswidth(s); padding = max(0, width - visual_len);
  return s + " " * padding\<close>. Code point 32 is the space.
\<close>

definition pad_string :: "(pystr \<Rightarrow> int) \<Rightarrow> pystr \<Rightarrow> int \<Rightarrow> pystr" where
  "pad_string wcswidth_fn s width =
     (let visual_len = wcswidth_fn s;
          padding = max 0 (width - visual_len)
      in s @ replicate (nat padding) 32)"

text \<open>
  Modelled from the spec: the display width calculator (section 4.1) is the package's
  \<^verbatim>\<open>wcswidth\<close>; only its call is in the repository. Each code point contributes its
  column width (0, 1 or 2), summed across the string; the package answers \<open>-1\<close> for the
  whole string as soon as one code point is not printable (its width is negative). The
  table of widths per code point is the parameter \<open>wcw\<close>.
\<close>

fun wcswidth_from :: "(nat \<Rightarrow> int) \<Rightarrow> pystr \<Rightarrow> int \<Rightarrow> int" where
  "wcswidth_from wcw [] width = width"
| "wcswidth_from wcw (c # cs) width =
     (if wcw c < 0 then - 1 else wcswidth_from wcw cs (width + wcw c))"

definition wcswidth :: "(nat \<Rightarrow> int) \<Rightarrow> pystr \<Rightarrow> int" where
  "wcswidth wcw s = wcswidth_from wcw s 0"

text \<open>A width table for the examples: printable ASCII is one column wide, the rest is not printable.\<close>

definition ascii_wcwidth :: "nat \<Rightarrow> int" where
  "ascii_wcwidth c = (if 32 \<le> c \<and> c < 127 then 1 else - 1)"

section \<open>Condition symbols (\<^verbatim>\<open>get_weather_emoji\<close>)\<close>

text \<open>
  \<^verbatim>\<open>str.lower()\<close>: the interpreter lowers an all-ASCII string code point by code point
  (\<open>A\<close>..\<open>Z\<close> to \<open>a\<close>..\<open>z\<close>). A string with a code point beyond ASCII goes through the
  interpreter's Unicode case tables, which are not part of the repository: that path is the
  parameter \<open>unicode_lower\<close>.
\<close>

definition is_ascii :: "pystr \<Rightarrow> bool" where
  "is_ascii s = list_all (\<lambda>c. c < 128) s"

definition ascii_lower :: "nat \<Rightarrow> nat" where
  "ascii_lower c = (if 65 \<le> c \<and> c \<le> 90 then c + 32 else c)"

definition lower :: "(pystr \<Rightarrow> pystr) \<Rightarrow> pystr \<Rightarrow> pystr" where
  "lower unicode_lower s = (if is_ascii s then map ascii_lower s else unicode_lower s)"

text \<open>\<^verbatim>\<open>sub in s\<close> on strings: \<open>sub\<close> occurs in \<open>s\<close> as a contiguous run.\<close>

fun str_in :: "pystr \<Rightarrow> pystr \<Rightarrow> bool" where
  "str_in sub [] = (sub = [])"
| "str_in sub (c # cs) = (prefix sub (c # cs) \<or> str_in sub cs)"

text \<open>The seven symbols the source returns, as the code points of its literals.\<close>

definition sun_symbol :: pystr where "sun_symbol = [0x2600, 0xFE0F]"
definition partly_cloudy_symbol :: pystr where "partly_cloudy_symbol = [0x26C5]"
definition rain_symbol :: pystr where "rain_symbol = [0x1F327, 0xFE0F]"
definition snow_symbol :: pystr where "snow_symbol = [0x2744, 0xFE0F]"
definition storm_symbol :: pystr where "storm_symbol = [0x26C8, 0xFE0F]"
definition fog_symbol :: pystr where "fog_symbol = [0x1F32B, 0xFE0F]"
definition fallback_symbol :: pystr where "fallback_symbol = [0x1F308]"

text \<open>
  \<open>classify\<close> is the \<^verbatim>\<open>if\<close>/\<^verbatim>\<open>elif\<close> chain of the source on the lowered condition, in
  the source's order; \<open>get_weather_emoji\<close> lowers the condition first, as the source's
  first statement does.
\<close>

definition classify :: "pystr \<Rightarrow> pystr" where
  "classify condition =
     (if str_in (str ''clear'') condition \<or> str_in (str ''sun'') condition then sun_symbol
      else if str_in (str ''partly'') condition \<or> str_in (str ''cloud'') condition
        then partly_cloudy_symbol
      else if str_in (str ''rain'') condition then rain_symbol
      else if str_in (str ''snow'') condition then snow_symbol
      else if str_in (str ''storm'') condition \<or> str_in (str ''thunder'') condition
        then storm_symbol
      else if str_in (str ''fog'') condition then fog_symbol
      else fallback_symbol)"

definition get_weather_emoji :: "(pystr \<Rightarrow> pystr) \<Rightarrow> pystr \<Rightarrow> pystr" where
  "get_weather_emoji unicode_lower condition = classify (lower unicode_lower condition)"

section \<open>Dates (\<^verbatim>\<open>parse_dates\<close>)\<close>

text \<open>
  A \<^verbatim>\<open>datetime.date\<close> is a year, a month and a day; dates compare as the triples do.
\<close>

datatype date = Date (year: nat) (month: nat) (day: nat)

definition date_gt :: "date \<Rightarrow> date \<Rightarrow> bool" where
  "date_gt a b =
     (year b < year a \<or> (year a = year b \<and>
        (month b < month a \<or> (month a = month b \<and> day b < day a))))"

definition date_le :: "date \<Rightarrow> date \<Rightarrow> bool" where
  "date_le a b =
     (year a < year b \<or> (year a = year b \<and>
        (month a < month b \<or> (month a = month b \<and> day a \<le> day b))))"

definition is_leap :: "nat \<Rightarrow> bool" where
  "is_leap y = (y mod 4 = 0 \<and> (y mod 100 \<noteq> 0 \<or> y mod 400 = 0))"

definition days_in_month :: "nat \<Rightarrow> nat \<Rightarrow> nat" where
  "days_in_month y m =
     (if m = 2 then (if is_leap y then 29 else 28)
      else if m = 4 \<or> m = 6 \<or> m = 9 \<or> m = 11 then 30 else 31)"

text \<open>
  Every failure inside the \<^verbatim>\<open>try\<close> block of \<^verbatim>\<open>parse_dates\<close> is a Python
  \<^verbatim>\<open>ValueError\<close>; the constructors tell which one: the four that \<^verbatim>\<open>strptime\<close>
  raises (with the offending text), the failed unpacking of
  \<^verbatim>\<open>start_str, end_str = date_str.split(":")\<close>, and the one the source raises itself.
\<close>

datatype error =
    NoFormatMatch pystr
  | UnconvertedData pystr
  | YearOutOfRange nat
  | DayOutOfRange
  | TooManyValues
  | StartAfterEnd

text \<open>
  \<^verbatim>\<open>datetime.strptime(s, "%Y-%m-%d")\<close> is the interpreter's, not the repository's. It
  turns the format into the regular expression
  \<^verbatim>\<open>(\d\d\d\d)-(1[0-2]|0[1-9]|[1-9])-(3[0-1]|[1-2]\d|0[1-9]|[1-9]| [1-9])\<close>, matches it at
  the start of the text, fails when text is left over, and builds the date, which fails
  for year 0 and for a day the month does not have. \<^verbatim>\<open>\d\<close> is any Unicode decimal
  digit: the ASCII digits are modelled, the value of a digit beyond ASCII is the
  parameter \<open>udigit\<close> (the interpreter's Unicode table).
\<close>

definition digit_value :: "(nat \<Rightarrow> nat option) \<Rightarrow> nat \<Rightarrow> nat option" where
  "digit_value udigit c =
     (if 48 \<le> c \<and> c \<le> 57 then Some (c - 48) else if c < 128 then None else udigit c)"

text \<open>
  Each group answers the alternatives that match at the start of the text, in the order
  the expression lists them, as the value read and the text left.
\<close>

fun year_group :: "(nat \<Rightarrow> nat option) \<Rightarrow> pystr \<Rightarrow> (nat \<times> pystr) list" where
  "year_group udigit (a # b # c # d # rest) =
     (case (digit_value udigit a, digit_value udigit b, digit_value udigit c,
            digit_value udigit d) of
        (Some x, Some y, Some z, Some w) \<Rightarrow> [(1000 * x + 100 * y + 10 * z + w, rest)]
      | _ \<Rightarrow> [])"
| "year_group udigit _ = []"

fun two_chars :: "pystr \<Rightarrow> (nat \<times> nat \<times> pystr) list" where
  "two_chars (a # b # rest) = [(a, b, rest)]"
| "two_chars _ = []"

fun one_char :: "pystr \<Rightarrow> (nat \<times> pystr) list" where
  "one_char (a # rest) = [(a, rest)]"
| "one_char _ = []"

definition month_group :: "pystr \<Rightarrow> (nat \<times> pystr) list" where
  "month_group s =
     concat (map (\<lambda>(a, b, rest). if a = 49 \<and> 48 \<le> b \<and> b \<le> 50 then [(10 + (b - 48), rest)] else [])
               (two_chars s))
     @ concat (map (\<lambda>(a, b, rest). if a = 48 \<and> 49 \<le> b \<and> b \<le> 57 then [(b - 48, rest)] else [])
               (two_chars s))
     @ concat (map (\<lambda>(a, rest). if 49 \<le> a \<and> a \<le> 57 then [(a - 48, rest)] else [])
               (one_char s))"

definition day_group :: "(nat \<Rightarrow> nat option) \<Rightarrow> pystr \<Rightarrow> (nat \<times> pystr) list" where
  "day_group udigit s =
     concat (map (\<lambda>(a, b, rest). if a = 51 \<and> 48 \<le> b \<and> b \<le> 49 then [(30 + (b - 48), rest)] else [])
               (two_chars s))
     @ concat (map (\<lambda>(a, b, rest).
                 if 49 \<le> a \<and> a \<le> 50
                 then (case digit_value udigit b of Some v \<Rightarrow> [(10 * (a - 48) + v, rest)]
                       | None \<Rightarrow> [])
                 else [])
               (two_chars s))
     @ concat (map (\<lambda>(a, b, rest). if a = 48 \<and> 49 \<le> b \<and> b \<le> 57 then [(b - 48, rest)] else [])
               (two_chars s))
     @ concat (map (\<lambda>(a, rest). if 49 \<le> a \<and> a \<le> 57 then [(a - 48, rest)] else [])
               (one_char s))
     @ concat (map (\<lambda>(a, b, rest). if a = 32 \<and> 49 \<le> b \<and> b \<le> 57 then [(b - 48, rest)] else [])
               (two_chars s))"

definition hyphen :: "pystr \<Rightarrow> pystr list" where
  "hyphen s = concat (map (\<lambda>(a, rest). if a = 45 then [rest] else []) (one_char s))"

text \<open>
  All the ways the expression matches at the start of the text, in the order the
  backtracking matcher finds them; \<^verbatim>\<open>match\<close> takes the first.
\<close>

definition format_matches :: "(nat \<Rightarrow> nat option) \<Rightarrow> pystr \<Rightarrow> ((nat \<times> nat \<times> nat) \<times> pystr) list" where
  "format_matches udigit s =
     concat (map (\<lambda>(y, r1).
       concat (map (\<lambda>r2.
         concat (map (\<lambda>(m, r3).
           concat (map (\<lambda>r4.
             map (\<lambda>(d, r5). ((y, m, d), r5)) (day_group udigit r4))
             (hyphen r3)))
           (month_group r2)))
         (hyphen r1)))
       (year_group udigit s))"

definition strptime :: "(nat \<Rightarrow> nat option) \<Rightarrow> pystr \<Rightarrow> error + date" where
  "strptime udigit s =
     (case format_matches udigit s of
        [] \<Rightarrow> Inl (NoFormatMatch s)
      | ((y, m, d), rest) # _ \<Rightarrow>
          if rest \<noteq> [] then Inl (UnconvertedData rest)
          else if y < 1 then Inl (YearOutOfRange y)
          else if days_in_month y m < d then Inl DayOutOfRange
          else Inr (Date y m d))"

text \<open>\<^verbatim>\<open>s.split(sep)\<close> for a separator of one code point.\<close>

fun split :: "nat \<Rightarrow> pystr \<Rightarrow> pystr list" where
  "split sep [] = [[]]"
| "split sep (c # cs) =
     (let ps = split sep cs in if c = sep then [] # ps else (c # hd ps) # tl ps)"

section \<open>What a run prints and how a call ends\<close>

text \<open>
  Each \<^verbatim>\<open>print\<close> of the source is a constructor of \<open>message\<close> carrying the values its
  text interpolates. A call ends by returning, by \<^verbatim>\<open>sys.exit\<close> with a status, or with an
  exception nobody catches (the interpreter then prints a traceback and the status is 1).
\<close>

datatype message =
    ErrorParsingDates error
  | PleaseSetApiKey
  | ErrorFetching int pystr
  | RequestFailed
  | Banner pystr pystr date date
  | NoWeatherData
  | Table "pystr list list"

datatype event = Print message | HttpGet pystr

datatype 'a ending = Return 'a | SysExit int | Uncaught

text \<open>
  \<open>parse_dates_try\<close> is the body of the \<^verbatim>\<open>try\<close> block, an error being the exception
  raised; \<open>parse_dates\<close> adds the handler, which prints and exits with status 1. 58 is the
  colon. The unpacking into two names fails unless the split has exactly two parts.
\<close>

definition check_order :: "date \<Rightarrow> date \<Rightarrow> error + (date \<times> date)" where
  "check_order start_date end_date =
     (if date_gt start_date end_date then Inl StartAfterEnd else Inr (start_date, end_date))"

definition parse_dates_try :: "(nat \<Rightarrow> nat option) \<Rightarrow> pystr \<Rightarrow> error + (date \<times> date)" where
  "parse_dates_try udigit date_str =
     (if str_in [58] date_str then
        (case split 58 date_str of
           [start_str, end_str] \<Rightarrow>
             (case strptime udigit start_str of
                Inl e \<Rightarrow> Inl e
              | Inr start_date \<Rightarrow>
                  (case strptime udigit end_str of
                     Inl e \<Rightarrow> Inl e
                   | Inr end_date \<Rightarrow> check_order start_date end_date))
         | _ \<Rightarrow> Inl TooManyValues)
      else
        (case strptime udigit date_str of
           Inl e \<Rightarrow> Inl e
         | Inr d \<Rightarrow> check_order d d))"

definition parse_dates :: "(nat \<Rightarrow> nat option) \<Rightarrow> pystr \<Rightarrow> event list \<times> (date \<times> date) ending" where
  "parse_dates udigit date_str =
     (case parse_dates_try udigit date_str of
        Inl e \<Rightarrow> ([Print (ErrorParsingDates e)], SysExit 1)
      | Inr dates \<Rightarrow> ([], Return dates))"

text \<open>
  Following the spec's words (section 4.3), for comparison with \<open>strptime\<close>: a text in
  strict \<^verbatim>\<open>YYYY-MM-DD\<close> format is ten code points, four ASCII digits, a hyphen, two
  digits, a hyphen and two digits, and it names a calendar date.
\<close>

definition ascii_digit :: "nat \<Rightarrow> bool" where
  "ascii_digit c = (48 \<le> c \<and> c \<le> 57)"

definition decimal :: "pystr \<Rightarrow> nat" where
  "decimal ds = foldl (\<lambda>n c. 10 * n + (c - 48)) 0 ds"

definition strict_yyyy_mm_dd :: "pystr \<Rightarrow> date option" where
  "strict_yyyy_mm_dd s =
     (let y = decimal (take 4 s); m = decimal (take 2 (drop 5 s)); d = decimal (drop 8 s)
      in if length s = 10
            \<and> list_all ascii_digit (take 4 s @ take 2 (drop 5 s) @ drop 8 s)
            \<and> s ! 4 = 45 \<and> s ! 7 = 45
            \<and> 1 \<le> y \<and> 1 \<le> m \<and> m \<le> 12 \<and> 1 \<le> d \<and> d \<le> days_in_month y m
         then Some (Date y m d) else None)"

text \<open>A digit table for the examples: no decimal digit beyond ASCII.\<close>

definition no_unicode_digits :: "nat \<Rightarrow> nat option" where
  "no_unicode_digits c = None"

text \<open>
  A Unicode lowering for the examples: the interpreter's on the Latin-1 range, where the
  capital letters are \<open>A\<close>..\<open>Z\<close> and code points 192..222 except the multiplication
  sign 215, each 32 below its small letter.
\<close>

definition latin1_lower :: "pystr \<Rightarrow> pystr" where
  "latin1_lower s =
     map (\<lambda>c. if (65 \<le> c \<and> c \<le> 90) \<or> (192 \<le> c \<and> c \<le> 222 \<and> c \<noteq> 215)
              then c + 32 else c) s"

section \<open>The provider request (\<^verbatim>\<open>fetch_weather\<close>)\<close>

text \<open>
  \<^verbatim>\<open>str(date)\<close> is the ISO form: the year on four digits, the month and the day on two
  (a \<^verbatim>\<open>datetime.date\<close> has a year from 1 to 9999).
\<close>

definition isoformat :: "date \<Rightarrow> pystr" where
  "isoformat d =
     [48 + year d div 1000 mod 10, 48 + year d div 100 mod 10, 48 + year d div 10 mod 10,
      48 + year d mod 10, 45,
      48 + month d div 10 mod 10, 48 + month d mod 10, 45,
      48 + day d div 10 mod 10, 48 + day d mod 10]"

text \<open>
  A decoded JSON value. Python's numbers (integers and floats) are not modelled: a number
  is a value of the open type \<open>'n\<close>. A JSON object decodes to a \<^verbatim>\<open>dict\<close>, a map from
  keys to values.
\<close>

datatype 'n json =
    JNull
  | JBool bool
  | JNumber 'n
  | JString pystr
  | JArray "'n json list"
  | JObject "pystr \<Rightarrow> 'n json option"

text \<open>
  What \<^verbatim>\<open>response.json()\<close> gives: the decoded body, or an exception. Which exception is
  the \<^verbatim>\<open>requests\<close> package's choice: its own \<^verbatim>\<open>JSONDecodeError\<close>, which is a
  \<^verbatim>\<open>RequestException\<close>, or the decoder's, a plain \<^verbatim>\<open>ValueError\<close>. The handler of
  the source catches the first only.
\<close>

datatype 'n decoding = Decoded "'n json" | JsonRequestException | JsonValueError

text \<open>
  What \<^verbatim>\<open>requests.get(url)\<close> gives: a response with its status code, its text and what
  decoding its body gives, or a \<^verbatim>\<open>RequestException\<close> of the transport.
\<close>

datatype 'n http_result =
    Response (status_code: int) (response_text: pystr) (response_json: "'n decoding")
  | RequestException

definition timeline_url :: "pystr \<Rightarrow> pystr \<Rightarrow> date \<Rightarrow> date \<Rightarrow> pystr \<Rightarrow> pystr" where
  "timeline_url nation city start_date end_date api_key =
     (let location = city @ str '','' @ nation
      in str ''https://weather.visualcrossing.com/VisualCrossingWebServices/rest/services/timeline/''
         @ location @ str ''/'' @ isoformat start_date @ str ''/'' @ isoformat end_date
         @ str ''?unitGroup=metric&key='' @ api_key @ str ''&include=days'')"

text \<open>
  The network is the parameter \<open>http_get\<close>. The event \<open>HttpGet url\<close> records the call
  \<^verbatim>\<open>requests.get(url)\<close> with the string the source hands over. \<^verbatim>\<open>sys.exit(1)\<close> inside
  the \<^verbatim>\<open>try\<close> block raises \<^verbatim>\<open>SystemExit\<close>, which the handler for
  \<^verbatim>\<open>RequestException\<close> does not catch.
\<close>

definition fetch_weather ::
  "(pystr \<Rightarrow> 'n http_result) \<Rightarrow> pystr \<Rightarrow> pystr \<Rightarrow> date \<Rightarrow> date \<Rightarrow> pystr
   \<Rightarrow> event list \<times> 'n json ending" where
  "fetch_weather http_get nation city start_date end_date api_key =
     (let url = timeline_url nation city start_date end_date api_key
      in case http_get url of
           RequestException \<Rightarrow> ([HttpGet url, Print RequestFailed], SysExit 1)
         | Response status body decoded \<Rightarrow>
             if status \<noteq> 200
             then ([HttpGet url, Print (ErrorFetching status body)], SysExit 1)
             else (case decoded of
                     Decoded data \<Rightarrow> ([HttpGet url], Return data)
                   | JsonRequestException \<Rightarrow> ([HttpGet url, Print RequestFailed], SysExit 1)
                   | JsonValueError \<Rightarrow> ([HttpGet url], Uncaught)))"

text \<open>
  Following the spec's words (sections 4.4 and 6), for comparison with \<open>timeline_url\<close>:
  the location percent-encoded as a path segment. A code point that may stand in a
  segment as it is (a letter, a digit, one of \<^verbatim>\<open>-._~!$&'()*+,;=:@\<close>) is kept; any other
  becomes \<^verbatim>\<open>%XX\<close> for each byte of its UTF-8 form.
\<close>

definition path_safe :: "nat \<Rightarrow> bool" where
  "path_safe c =
     ((65 \<le> c \<and> c \<le> 90) \<or> (97 \<le> c \<and> c \<le> 122) \<or> (48 \<le> c \<and> c \<le> 57)
      \<or> c \<in> set [45, 46, 95, 126, 33, 36, 38, 39, 40, 41, 42, 43, 44, 59, 61, 58, 64])"

definition utf8 :: "nat \<Rightarrow> nat list" where
  "utf8 c =
     (if c < 128 then [c]
      else if c < 2048 then [192 + c div 64, 128 + c mod 64]
      else if c < 65536 then [224 + c div 4096, 128 + c div 64 mod 64, 128 + c mod 64]
      else [240 + c div 262144, 128 + c div 4096 mod 64, 128 + c div 64 mod 64, 128 + c mod 64])"

definition hex_digit :: "nat \<Rightarrow> nat" where
  "hex_digit n = (if n < 10 then 48 + n else 55 + n)"

definition percent :: "nat \<Rightarrow> pystr" where
  "percent b = [37, hex_digit (b div 16), hex_digit (b mod 16)]"

definition url_encode :: "pystr \<Rightarrow> pystr" where
  "url_encode s = concat (map (\<lambda>c. if path_safe c then [c] else concat (map percent (utf8 c))) s)"

definition encoded_timeline_url :: "pystr \<Rightarrow> pystr \<Rightarrow> date \<Rightarrow> date \<Rightarrow> pystr \<Rightarrow> pystr" where
  "encoded_timeline_url nation city start_date end_date api_key =
     str ''https://weather.visualcrossing.com/VisualCrossingWebServices/rest/services/timeline/''
     @ url_encode (city @ str '','' @ nation)
     @ str ''/'' @ isoformat start_date @ str ''/'' @ isoformat end_date
     @ str ''?unitGroup=metric&key='' @ api_key @ str ''&include=days''"

text \<open>A network for the examples: every request fails in the transport.\<close>

definition offline :: "pystr \<Rightarrow> unit http_result" where
  "offline url = RequestException"

section \<open>The program (\<^verbatim>\<open>main\<close>)\<close>

text \<open>
  What the program takes from outside the repository: the interpreter's Unicode tables,
  the \<^verbatim>\<open>wcwidth\<close> package, the network, and the interpreter's handling of numbers (their
  truth value and their printed form).
\<close>

record 'n platform =
  udigit :: "nat \<Rightarrow> nat option"
  unicode_lower :: "pystr \<Rightarrow> pystr"
  wcswidth_of :: "pystr \<Rightarrow> int"
  http_get :: "pystr \<Rightarrow> 'n http_result"
  number_nonzero :: "'n \<Rightarrow> bool"
  number_str :: "'n \<Rightarrow> pystr"
  container_str :: "'n json \<Rightarrow> pystr"

text \<open>The parsed command line: \<^verbatim>\<open>args.nation\<close>, \<^verbatim>\<open>args.city\<close>, \<^verbatim>\<open>args.date\<close>.\<close>

record args =
  args_nation :: pystr
  args_city :: pystr
  args_date :: pystr

text \<open>\<^verbatim>\<open>d.get(key, default)\<close>, the truth value of a decoded value, and \<^verbatim>\<open>{v}\<close> in an f-string.\<close>

definition dict_get :: "(pystr \<Rightarrow> 'n json option) \<Rightarrow> pystr \<Rightarrow> 'n json \<Rightarrow> 'n json" where
  "dict_get d k dflt = (case d k of None \<Rightarrow> dflt | Some v \<Rightarrow> v)"

definition truthy :: "'n platform \<Rightarrow> 'n json \<Rightarrow> bool" where
  "truthy P v =
     (case v of
        JNull \<Rightarrow> False
      | JBool b \<Rightarrow> b
      | JNumber n \<Rightarrow> number_nonzero P n
      | JString s \<Rightarrow> s \<noteq> []
      | JArray xs \<Rightarrow> xs \<noteq> []
      | JObject d \<Rightarrow> d \<noteq> Map.empty)"

definition fstr :: "'n platform \<Rightarrow> 'n json \<Rightarrow> pystr" where
  "fstr P v =
     (case v of
        JNull \<Rightarrow> str ''None''
      | JBool b \<Rightarrow> (if b then str ''True'' else str ''False'')
      | JNumber n \<Rightarrow> number_str P n
      | JString s \<Rightarrow> s
      | _ \<Rightarrow> container_str P v)"

text \<open>
  One pass of the loop body: the row of a day, or \<open>None\<close> when the body raises (the day is
  not a \<^verbatim>\<open>dict\<close>, the condition is not a string so that \<^verbatim>\<open>.lower()\<close> fails, the date is
  missing or not a string so that padding it fails). 176 is the degree sign.
\<close>

definition render_row :: "'n platform \<Rightarrow> 'n json \<Rightarrow> pystr list option" where
  "render_row P day_value =
     (case day_value of
        JObject d \<Rightarrow>
          (let date = d (str ''datetime'');
               tempmax = dict_get d (str ''tempmax'') (JString (str ''N/A''));
               tempmin = dict_get d (str ''tempmin'') (JString (str ''N/A''));
               precip = dict_get d (str ''precipprob'') (JString (str ''N/A''));
               wind = dict_get d (str ''windspeed'') (JString (str ''N/A''));
               condition = dict_get d (str ''conditions'') (JString (str ''Unknown''))
           in case condition of
                JString c \<Rightarrow>
                  (let emoji = get_weather_emoji (unicode_lower P) c
                   in case date of
                        Some (JString dt) \<Rightarrow>
                          Some [pad_string (wcswidth_of P) dt 10,
                                pad_string (wcswidth_of P) (emoji @ [32] @ c) 20,
                                pad_string (wcswidth_of P)
                                  (fstr P tempmax @ [176] @ str '' / '' @ fstr P tempmin @ [176]) 15,
                                pad_string (wcswidth_of P) (fstr P precip @ [37]) 8,
                                pad_string (wcswidth_of P) (fstr P wind @ str '' km/h'') 12]
                      | _ \<Rightarrow> None)
              | _ \<Rightarrow> None)
      | _ \<Rightarrow> None)"

text \<open>
  The part of \<^verbatim>\<open>main\<close> after the banner. \<^verbatim>\<open>data.get\<close> needs a \<^verbatim>\<open>dict\<close>; a \<^verbatim>\<open>days\<close>
  value that is false ends the run with the notice and status 0; a true one is iterated,
  which gives rows for a list and raises otherwise. The table is printed in one piece
  (\<^verbatim>\<open>tabulate\<close> is not part of the repository): \<open>Table rows\<close>.
\<close>

definition render_days :: "'n platform \<Rightarrow> 'n json \<Rightarrow> event list \<times> unit ending" where
  "render_days P data =
     (case data of
        JObject d \<Rightarrow>
          (let days = dict_get d (str ''days'') (JArray [])
           in if \<not> truthy P days then ([Print NoWeatherData], SysExit 0)
              else (case days of
                      JArray ds \<Rightarrow>
                        (case those (map (render_row P) ds) of
                           None \<Rightarrow> ([], Uncaught)
                         | Some table \<Rightarrow> ([Print (Table table)], Return ()))
                    | _ \<Rightarrow> ([], Uncaught)))
      | _ \<Rightarrow> ([], Uncaught))"

text \<open>
  \<^verbatim>\<open>main\<close>, from the parsed arguments and the value of
  \<^verbatim>\<open>os.environ.get("VISUAL_CROSSING_API_KEY")\<close>. The banner carries the city and the nation
  as given (its text shows \<^verbatim>\<open>city.title()\<close> and \<^verbatim>\<open>nation.upper()\<close>).
\<close>

definition main :: "'n platform \<Rightarrow> pystr option \<Rightarrow> args \<Rightarrow> event list \<times> unit ending" where
  "main P environ_api_key args =
     (case parse_dates (udigit P) (args_date args) of
        (out, SysExit n) \<Rightarrow> (out, SysExit n)
      | (out, Uncaught) \<Rightarrow> (out, Uncaught)
      | (out, Return (start_date, end_date)) \<Rightarrow>
          (case environ_api_key of
             None \<Rightarrow> (out @ [Print PleaseSetApiKey], SysExit 1)
           | Some api_key \<Rightarrow>
               if api_key = [] then (out @ [Print PleaseSetApiKey], SysExit 1)
               else
                 (case fetch_weather (http_get P) (args_nation args) (args_city args)
                         start_date end_date api_key of
                    (out2, SysExit n) \<Rightarrow> (out @ out2, SysExit n)
                  | (out2, Uncaught) \<Rightarrow> (out @ out2, Uncaught)
                  | (out2, Return data) \<Rightarrow>
                      (let banner = Print (Banner (args_city args) (args_nation args)
                                             start_date end_date);
                           (out3, e) = render_days P data
                       in (out @ out2 @ [banner] @ out3, e)))))"

text \<open>The exit status of the process, and the requests and tables of a run.\<close>

definition exit_status :: "'a ending \<Rightarrow> int" where
  "exit_status e = (case e of Return x \<Rightarrow> 0 | SysExit n \<Rightarrow> n | Uncaught \<Rightarrow> 1)"

fun is_request :: "event \<Rightarrow> bool" where
  "is_request (HttpGet url) = True"
| "is_request (Print m) = False"

fun is_table :: "event \<Rightarrow> bool" where
  "is_table (Print (Table rows)) = True"
| "is_table e = False"

text \<open>A platform for the examples: ASCII and Latin-1 tables, the network a parameter.\<close>

definition ascii_platform :: "(pystr \<Rightarrow> unit http_result) \<Rightarrow> unit platform" where
  "ascii_platform net =
     \<lparr>udigit = no_unicode_digits, unicode_lower = latin1_lower,
      wcswidth_of = wcswidth ascii_wcwidth, http_get = net,
      number_nonzero = (\<lambda>n. True), number_str = (\<lambda>n. str ''0''),
      container_str = (\<lambda>v. [])\<rparr>"

text \<open>The text \<^verbatim>\<open>{"days":[]}\<close>, for the examples (34 is the double quote).\<close>

definition empty_days_text :: pystr where
  "empty_days_text = [123, 34] @ str ''days'' @ [34] @ str '':[]}''"

section \<open>Properties of \<open>pad_string\<close>\<close>

lemma wcswidth_from_single:
  "\<forall>c\<in>set s. wcw c = 1 \<Longrightarrow> wcswidth_from wcw s k = k + int (length s)"
  by (induction s arbitrary: k) auto

lemma wcswidth_single:
  "\<forall>c\<in>set s. wcw c = 1 \<Longrightarrow> wcswidth wcw s = int (length s)"
  by (simp add: wcswidth_def wcswidth_from_single)

lemma str_length [simp]: "length (str cs) = length cs"
  by (simp add: str_def)

text \<open>
  C1. For a string made of single-width code points only (the space itself being
  single-width), the padded string has display width and length \<open>max (len s) w\<close>, and it is
  \<open>s\<close> followed on the right by spaces only.
\<close>

theorem pad_string_single_width:
  assumes "\<forall>c\<in>set s. wcw c = 1" and "wcw 32 = 1"
  shows "wcswidth wcw (pad_string (wcswidth wcw) s w) = max (int (length s)) w
       \<and> int (length (pad_string (wcswidth wcw) s w)) = max (int (length s)) w
       \<and> pad_string (wcswidth wcw) s w = s @ replicate (nat (w - int (length s))) 32"
proof -
  let ?r = "pad_string (wcswidth wcw) s w"
  have shape: "?r = s @ replicate (nat (w - int (length s))) 32"
    using assms(1) by (simp add: pad_string_def Let_def wcswidth_single max_def)
  have "\<forall>c\<in>set ?r. wcw c = 1"
    using assms by (auto simp: shape)
  then have "wcswidth wcw ?r = int (length ?r)"
    by (rule wcswidth_single)
  moreover have "int (length ?r) = max (int (length s)) w"
    by (simp add: shape)
  ultimately show ?thesis
    using shape by simp
qed

theorem pad_string_single_width_witness:
  "wcswidth ascii_wcwidth (pad_string (wcswidth ascii_wcwidth) (str ''Rain'') 8) = 8
   \<and> pad_string (wcswidth ascii_wcwidth) (str ''Rain'') 8
       = str ''Rain'' @ [32, 32, 32, 32]
   \<and> wcswidth ascii_wcwidth (pad_string (wcswidth ascii_wcwidth) (str ''Rain'') 2) = 4
   \<and> pad_string (wcswidth ascii_wcwidth) (str ''Rain'') 2 = str ''Rain''"
proof -
  let ?R = "str ''Rain''"
  have a: "\<forall>c\<in>set ?R. ascii_wcwidth c = 1"
    by (simp add: str_def ascii_wcwidth_def)
  have b: "ascii_wcwidth 32 = 1"
    by (simp add: ascii_wcwidth_def)
  note wide = pad_string_single_width [OF a b, of 8]
  note narrow = pad_string_single_width [OF a b, of 2]
  have m8: "max (int (length ?R)) 8 = 8" and m2: "max (int (length ?R)) 2 = 4"
    by simp_all
  have r8: "?R @ replicate (nat (8 - int (length ?R))) 32 = ?R @ [32, 32, 32, 32]"
    by (simp add: numeral_eq_Suc)
  have r2: "?R @ replicate (nat (2 - int (length ?R))) 32 = ?R"
    by simp
  have "wcswidth ascii_wcwidth (pad_string (wcswidth ascii_wcwidth) ?R 8) = 8"
    by (rule trans [OF wide [THEN conjunct1] m8])
  moreover have "pad_string (wcswidth ascii_wcwidth) ?R 8 = ?R @ [32, 32, 32, 32]"
    by (rule trans [OF wide [THEN conjunct2, THEN conjunct2] r8])
  moreover have "wcswidth ascii_wcwidth (pad_string (wcswidth ascii_wcwidth) ?R 2) = 4"
    by (rule trans [OF narrow [THEN conjunct1] m2])
  moreover have "pad_string (wcswidth ascii_wcwidth) ?R 2 = ?R"
    by (rule trans [OF narrow [THEN conjunct2, THEN conjunct2] r2])
  ultimately show ?thesis
    by (intro conjI)
qed

text \<open>
  C2. Whatever the width function, the input is a prefix of the padded string, and when
  its display width is at least the target width the input is returned as it is.
\<close>

theorem pad_string_prefix:
  "prefix s (pad_string wcswidth_fn s w)
   \<and> (w \<le> wcswidth_fn s \<longrightarrow> pad_string wcswidth_fn s w = s)"
  by (simp add: pad_string_def Let_def)

theorem pad_string_prefix_witness:
  "prefix (str ''Thunderstorm'') (pad_string (wcswidth ascii_wcwidth) (str ''Thunderstorm'') 8)
   \<and> (8::int) \<le> wcswidth ascii_wcwidth (str ''Thunderstorm'')
   \<and> pad_string (wcswidth ascii_wcwidth) (str ''Thunderstorm'') 8 = str ''Thunderstorm''"
proof -
  have w: "(8::int) \<le> wcswidth ascii_wcwidth (str ''Thunderstorm'')"
    by (simp add: wcswidth_def str_def ascii_wcwidth_def)
  show ?thesis
    using pad_string_prefix [of "str ''Thunderstorm''" "wcswidth ascii_wcwidth" 8] w
    by simp
qed

section \<open>Properties of \<open>get_weather_emoji\<close>\<close>

lemma str_in_sublist: "str_in sub s = sublist sub s"
  by (induction s) (simp_all add: sublist_Cons_right)

lemma ascii_lower_idem: "ascii_lower (ascii_lower c) = ascii_lower c"
  by (simp add: ascii_lower_def)

lemma is_ascii_map_lower: "is_ascii s \<Longrightarrow> is_ascii (map ascii_lower s)"
  by (induction s) (auto simp: is_ascii_def ascii_lower_def)

lemma lower_ascii_idem: "is_ascii s \<Longrightarrow> lower u (lower u s) = lower u s"
  by (simp add: lower_def is_ascii_map_lower ascii_lower_idem)

lemma lower_heavy_rain:
  "lower u (str ''Heavy Rain and Thunderstorms'') = str ''heavy rain and thunderstorms''"
  by (simp add: lower_def is_ascii_def ascii_lower_def str_def)

lemma lower_partly_cloudy: "lower u (str ''Partly Cloudy'') = str ''partly cloudy''"
  by (simp add: lower_def is_ascii_def ascii_lower_def str_def)

lemma classify_heavy_rain: "classify (str ''heavy rain and thunderstorms'') = rain_symbol"
  by (simp add: classify_def str_def)

lemma classify_partly_cloudy: "classify (str ''partly cloudy'') = partly_cloudy_symbol"
  by (simp add: classify_def str_def)

text \<open>
  C5, as stated, fails: a condition that contains "cloud" and "rain" and also "sun" is
  taken by rule 1, which comes before rule 2.
\<close>

theorem cloud_rain_counterexample:
  "str_in (str ''cloud'') (str ''sunny, cloud, rain'')
   \<and> str_in (str ''rain'') (str ''sunny, cloud, rain'')
   \<and> get_weather_emoji id (str ''sunny, cloud, rain'') = sun_symbol
   \<and> sun_symbol \<noteq> partly_cloudy_symbol"
  by (simp add: get_weather_emoji_def classify_def lower_def is_ascii_def ascii_lower_def
      str_def sun_symbol_def partly_cloudy_symbol_def)

text \<open>
  C5, amended. The mapping is first-match-wins in the source's order, on the lowered
  condition: "clear" or "sun" gives the sun symbol; otherwise "partly" or "cloud" the
  partly-cloudy symbol; otherwise "rain" the rain symbol; otherwise "snow" the snow
  symbol; otherwise "storm" or "thunder" the storm symbol; otherwise "fog" the fog symbol;
  otherwise the fallback symbol. So a condition with "cloud" and "rain" and neither
  "clear" nor "sun" gets the partly-cloudy symbol (rule 2 before rule 3), and one that
  also has "clear" or "sun" gets the sun symbol (rule 1); "Heavy Rain and Thunderstorms"
  gets the rain symbol and "Partly Cloudy" the partly-cloudy symbol. The seven symbols
  differ from one another.
\<close>

theorem get_weather_emoji_first_match:
  "(str_in (str ''clear'') (lower u c) \<or> str_in (str ''sun'') (lower u c)
      \<longrightarrow> get_weather_emoji u c = sun_symbol)
   \<and> (\<not> str_in (str ''clear'') (lower u c) \<and> \<not> str_in (str ''sun'') (lower u c)
      \<and> (str_in (str ''partly'') (lower u c) \<or> str_in (str ''cloud'') (lower u c))
      \<longrightarrow> get_weather_emoji u c = partly_cloudy_symbol)
   \<and> (\<not> str_in (str ''clear'') (lower u c) \<and> \<not> str_in (str ''sun'') (lower u c)
      \<and> \<not> str_in (str ''partly'') (lower u c) \<and> \<not> str_in (str ''cloud'') (lower u c)
      \<and> str_in (str ''rain'') (lower u c)
      \<longrightarrow> get_weather_emoji u c = rain_symbol)
   \<and> (\<not> str_in (str ''clear'') (lower u c) \<and> \<not> str_in (str ''sun'') (lower u c)
      \<and> \<not> str_in (str ''partly'') (lower u c) \<and> \<not> str_in (str ''cloud'') (lower u c)
      \<and> \<not> str_in (str ''rain'') (lower u c) \<and> str_in (str ''snow'') (lower u c)
      \<longrightarrow> get_weather_emoji u c = snow_symbol)
   \<and> (\<not> str_in (str ''clear'') (lower u c) \<and> \<not> str_in (str ''sun'') (lower u c)
      \<and> \<not> str_in (str ''partly'') (lower u c) \<and> \<not> str_in (str ''cloud'') (lower u c)
      \<and> \<not> str_in (str ''rain'') (lower u c) \<and> \<not> str_in (str ''snow'') (lower u c)
      \<and> (str_in (str ''storm'') (lower u c) \<or> str_in (str ''thunder'') (lower u c))
      \<longrightarrow> get_weather_emoji u c = storm_symbol)
   \<and> (\<not> str_in (str ''clear'') (lower u c) \<and> \<not> str_in (str ''sun'') (lower u c)
      \<and> \<not> str_in (str ''partly'') (lower u c) \<and> \<not> str_in (str ''cloud'') (lower u c)
      \<and> \<not> str_in (str ''rain'') (lower u c) \<and> \<not> str_in (str ''snow'') (lower u c)
      \<and> \<not> str_in (str ''storm'') (lower u c) \<and> \<not> str_in (str ''thunder'') (lower u c)
      \<and> str_in (str ''fog'') (lower u c)
      \<longrightarrow> get_weather_emoji u c = fog_symbol)
   \<and> (\<not> str_in (str ''clear'') (lower u c) \<and> \<not> str_in (str ''sun'') (lower u c)
      \<and> \<not> str_in (str ''partly'') (lower u c) \<and> \<not> str_in (str ''cloud'') (lower u c)
      \<and> \<not> str_in (str ''rain'') (lower u c) \<and> \<not> str_in (str ''snow'') (lower u c)
      \<and> \<not> str_in (str ''storm'') (lower u c) \<and> \<not> str_in (str ''thunder'') (lower u c)
      \<and> \<not> str_in (str ''fog'') (lower u c)
      \<longrightarrow> get_weather_emoji u c = fallback_symbol)
   \<and> (str_in (str ''cloud'') (lower u c) \<and> str_in (str ''rain'') (lower u c)
      \<and> \<not> str_in (str ''clear'') (lower u c) \<and> \<not> str_in (str ''sun'') (lower u c)
      \<longrightarrow> get_weather_emoji u c = partly_cloudy_symbol)
   \<and> (str_in (str ''cloud'') (lower u c) \<and> str_in (str ''rain'') (lower u c)
      \<and> (str_in (str ''clear'') (lower u c) \<or> str_in (str ''sun'') (lower u c))
      \<longrightarrow> get_weather_emoji u c = sun_symbol)
   \<and> get_weather_emoji u (str ''Heavy Rain and Thunderstorms'') = rain_symbol
   \<and> get_weather_emoji u (str ''Partly Cloudy'') = partly_cloudy_symbol
   \<and> distinct [sun_symbol, partly_cloudy_symbol, rain_symbol, snow_symbol, storm_symbol,
        fog_symbol, fallback_symbol]"
proof (intro conjI impI)
  show "get_weather_emoji u (str ''Heavy Rain and Thunderstorms'') = rain_symbol"
    by (simp only: get_weather_emoji_def lower_heavy_rain classify_heavy_rain)
  show "get_weather_emoji u (str ''Partly Cloudy'') = partly_cloudy_symbol"
    by (simp only: get_weather_emoji_def lower_partly_cloudy classify_partly_cloudy)
  show "distinct [sun_symbol, partly_cloudy_symbol, rain_symbol, snow_symbol, storm_symbol,
        fog_symbol, fallback_symbol]"
    by (simp add: sun_symbol_def partly_cloudy_symbol_def rain_symbol_def snow_symbol_def
        storm_symbol_def fog_symbol_def fallback_symbol_def)
qed (auto simp: get_weather_emoji_def classify_def)

theorem get_weather_emoji_first_match_witness:
  "get_weather_emoji id (str ''sunny, cloud, rain'') = sun_symbol
   \<and> get_weather_emoji id (str ''Rain, Partially cloudy'') = partly_cloudy_symbol
   \<and> get_weather_emoji id (str ''Rain, Overcast'') = rain_symbol
   \<and> get_weather_emoji id (str ''Snow'') = snow_symbol
   \<and> get_weather_emoji id (str ''Thunderstorm'') = storm_symbol
   \<and> get_weather_emoji id (str ''Fog'') = fog_symbol
   \<and> get_weather_emoji id (str ''Overcast'') = fallback_symbol"
proof -
  have l: "lower id (str ''sunny, cloud, rain'') = str ''sunny, cloud, rain''"
    "lower id (str ''Rain, Partially cloudy'') = str ''rain, partially cloudy''"
    "lower id (str ''Rain, Overcast'') = str ''rain, overcast''"
    "lower id (str ''Snow'') = str ''snow''"
    "lower id (str ''Thunderstorm'') = str ''thunderstorm''"
    "lower id (str ''Fog'') = str ''fog''"
    "lower id (str ''Overcast'') = str ''overcast''"
    by (simp_all add: lower_def is_ascii_def ascii_lower_def str_def)
  have sunny: "str_in (str ''sun'') (str ''sunny, cloud, rain'')"
    "str_in (str ''cloud'') (str ''sunny, cloud, rain'')"
    "str_in (str ''rain'') (str ''sunny, cloud, rain'')"
    by (simp_all add: str_def)
  have cloudy: "\<not> str_in (str ''clear'') (str ''rain, partially cloudy'')"
    "\<not> str_in (str ''sun'') (str ''rain, partially cloudy'')"
    "str_in (str ''cloud'') (str ''rain, partially cloudy'')"
    "str_in (str ''rain'') (str ''rain, partially cloudy'')"
    by (simp_all add: str_def)
  have rainy: "\<not> str_in (str ''clear'') (str ''rain, overcast'')"
    "\<not> str_in (str ''sun'') (str ''rain, overcast'')"
    "\<not> str_in (str ''partly'') (str ''rain, overcast'')"
    "\<not> str_in (str ''cloud'') (str ''rain, overcast'')"
    "str_in (str ''rain'') (str ''rain, overcast'')"
    by (simp_all add: str_def)
  have snowy: "\<not> str_in (str ''clear'') (str ''snow'')" "\<not> str_in (str ''sun'') (str ''snow'')"
    "\<not> str_in (str ''partly'') (str ''snow'')" "\<not> str_in (str ''cloud'') (str ''snow'')"
    "\<not> str_in (str ''rain'') (str ''snow'')" "str_in (str ''snow'') (str ''snow'')"
    by (simp_all add: str_def)
  have stormy: "\<not> str_in (str ''clear'') (str ''thunderstorm'')"
    "\<not> str_in (str ''sun'') (str ''thunderstorm'')"
    "\<not> str_in (str ''partly'') (str ''thunderstorm'')"
    "\<not> str_in (str ''cloud'') (str ''thunderstorm'')"
    "\<not> str_in (str ''rain'') (str ''thunderstorm'')"
    "\<not> str_in (str ''snow'') (str ''thunderstorm'')"
    "str_in (str ''storm'') (str ''thunderstorm'')"
    by (simp_all add: str_def)
  have foggy: "\<not> str_in (str ''clear'') (str ''fog'')" "\<not> str_in (str ''sun'') (str ''fog'')"
    "\<not> str_in (str ''partly'') (str ''fog'')" "\<not> str_in (str ''cloud'') (str ''fog'')"
    "\<not> str_in (str ''rain'') (str ''fog'')" "\<not> str_in (str ''snow'') (str ''fog'')"
    "\<not> str_in (str ''storm'') (str ''fog'')" "\<not> str_in (str ''thunder'') (str ''fog'')"
    "str_in (str ''fog'') (str ''fog'')"
    by (simp_all add: str_def)
  have plain: "\<not> str_in (str ''clear'') (str ''overcast'')"
    "\<not> str_in (str ''sun'') (str ''overcast'')"
    "\<not> str_in (str ''partly'') (str ''overcast'')"
    "\<not> str_in (str ''cloud'') (str ''overcast'')"
    "\<not> str_in (str ''rain'') (str ''overcast'')"
    "\<not> str_in (str ''snow'') (str ''overcast'')"
    "\<not> str_in (str ''storm'') (str ''overcast'')"
    "\<not> str_in (str ''thunder'') (str ''overcast'')"
    "\<not> str_in (str ''fog'') (str ''overcast'')"
    by (simp_all add: str_def)
  have "get_weather_emoji id (str ''sunny, cloud, rain'') = sun_symbol"
    using get_weather_emoji_first_match [of id "str ''sunny, cloud, rain''"] sunny
    unfolding l by blast
  moreover have "get_weather_emoji id (str ''Rain, Partially cloudy'') = partly_cloudy_symbol"
    using get_weather_emoji_first_match [of id "str ''Rain, Partially cloudy''"] cloudy
    unfolding l by blast
  moreover have "get_weather_emoji id (str ''Rain, Overcast'') = rain_symbol"
    using get_weather_emoji_first_match [of id "str ''Rain, Overcast''"] rainy
    unfolding l by blast
  moreover have "get_weather_emoji id (str ''Snow'') = snow_symbol"
    using get_weather_emoji_first_match [of id "str ''Snow''"] snowy
    unfolding l by blast
  moreover have "get_weather_emoji id (str ''Thunderstorm'') = storm_symbol"
    using get_weather_emoji_first_match [of id "str ''Thunderstorm''"] stormy
    unfolding l by blast
  moreover have "get_weather_emoji id (str ''Fog'') = fog_symbol"
    using get_weather_emoji_first_match [of id "str ''Fog''"] foggy
    unfolding l by blast
  moreover have "get_weather_emoji id (str ''Overcast'') = fallback_symbol"
    using get_weather_emoji_first_match [of id "str ''Overcast''"] plain
    unfolding l by blast
  ultimately show ?thesis
    by (intro conjI)
qed

text \<open>
  C9. The symbol of a condition is the symbol of its lowered form. For an all-ASCII
  condition this follows from the model; beyond ASCII it rests on the interpreter's
  lowering being idempotent on this condition, which is the hypothesis.
\<close>

theorem get_weather_emoji_case_insensitive:
  assumes "\<not> is_ascii c \<Longrightarrow> lower u (u c) = u c"
  shows "get_weather_emoji u c = get_weather_emoji u (lower u c)"
proof (cases "is_ascii c")
  case True
  then show ?thesis
    by (simp add: get_weather_emoji_def lower_ascii_idem)
next
  case False
  with assms have "lower u (u c) = u c"
    by simp
  with False show ?thesis
    by (simp add: get_weather_emoji_def lower_def)
qed

theorem get_weather_emoji_case_insensitive_witness:
  "get_weather_emoji id (str ''PARTLY Cloudy'') = get_weather_emoji id (lower id (str ''PARTLY Cloudy''))
   \<and> lower id (str ''PARTLY Cloudy'') = str ''partly cloudy''
   \<and> get_weather_emoji id (str ''PARTLY Cloudy'') = partly_cloudy_symbol
   \<and> \<not> is_ascii (201 # str ''CLAIRCIES, CLEAR'')
   \<and> lower latin1_lower (201 # str ''CLAIRCIES, CLEAR'') = 233 # str ''claircies, clear''
   \<and> get_weather_emoji latin1_lower (201 # str ''CLAIRCIES, CLEAR'')
       = get_weather_emoji latin1_lower (233 # str ''claircies, clear'')"
proof -
  have a: "is_ascii (str ''PARTLY Cloudy'')"
    by (simp add: is_ascii_def str_def)
  have l: "lower id (str ''PARTLY Cloudy'') = str ''partly cloudy''"
    by (simp add: lower_def is_ascii_def ascii_lower_def str_def)
  have e: "get_weather_emoji id (str ''PARTLY Cloudy'') = partly_cloudy_symbol"
    by (simp only: get_weather_emoji_def l classify_partly_cloudy)
  from a have i: "get_weather_emoji id (str ''PARTLY Cloudy'')
      = get_weather_emoji id (lower id (str ''PARTLY Cloudy''))"
    by (intro get_weather_emoji_case_insensitive) simp
  let ?c = "201 # str ''CLAIRCIES, CLEAR''"
  have n: "\<not> is_ascii ?c"
    by (simp add: is_ascii_def)
  have u: "latin1_lower ?c = 233 # str ''claircies, clear''"
    by (simp add: latin1_lower_def str_def)
  have l2: "lower latin1_lower ?c = 233 # str ''claircies, clear''"
    using n u by (simp add: lower_def)
  have idem: "lower latin1_lower (latin1_lower ?c) = latin1_lower ?c"
    unfolding u by (simp add: lower_def is_ascii_def latin1_lower_def str_def)
  have "get_weather_emoji latin1_lower ?c = get_weather_emoji latin1_lower (lower latin1_lower ?c)"
    using idem by (intro get_weather_emoji_case_insensitive)
  then have j: "get_weather_emoji latin1_lower ?c
      = get_weather_emoji latin1_lower (233 # str ''claircies, clear'')"
    by (simp only: l2)
  show ?thesis
    using i l e n l2 j by (intro conjI)
qed

section \<open>Properties of \<open>parse_dates\<close>\<close>

lemmas strptime_eval = strptime_def format_matches_def month_group_def day_group_def
  hyphen_def digit_value_def days_in_month_def is_leap_def

lemma date_le_iff: "date_le a b \<longleftrightarrow> \<not> date_gt a b"
  by (auto simp: date_le_def date_gt_def)

lemma split_not_Nil: "split sep s \<noteq> []"
  by (induction s) (simp_all add: Let_def)

lemma split_no_sep: "sep \<notin> set s \<Longrightarrow> split sep s = [s]"
  by (induction s) (simp_all add: Let_def)

lemma split_sep_length: "sep \<in> set s \<Longrightarrow> 2 \<le> length (split sep s)"
proof (induction s)
  case Nil
  then show ?case by simp
next
  case (Cons c cs)
  have "1 \<le> length (split sep cs)"
    using split_not_Nil [of sep cs] by (cases "split sep cs") simp_all
  with Cons show ?case
    by (cases "c = sep") (auto simp: Let_def)
qed

lemma str_in_single: "str_in [c] s \<longleftrightarrow> c \<in> set s"
  by (induction s) auto

lemma check_order_same: "check_order d d = Inr (d, d)"
  by (simp add: check_order_def date_gt_def)

text \<open>The \<^verbatim>\<open>try\<close> block by the number of parts of the split.\<close>

lemma parse_dates_try_parts:
  "parse_dates_try u s =
     (case split 58 s of
        [t] \<Rightarrow> (case strptime u t of Inl e \<Rightarrow> Inl e | Inr d \<Rightarrow> Inr (d, d))
      | [t1, t2] \<Rightarrow>
          (case strptime u t1 of
             Inl e \<Rightarrow> Inl e
           | Inr a \<Rightarrow> (case strptime u t2 of Inl e \<Rightarrow> Inl e | Inr b \<Rightarrow> check_order a b))
      | _ \<Rightarrow> Inl TooManyValues)"
proof (cases "58 \<in> set s")
  case True
  then have "2 \<le> length (split 58 s)"
    by (rule split_sep_length)
  then show ?thesis
    using True by (auto simp: parse_dates_try_def str_in_single split: list.splits)
next
  case False
  then show ?thesis
    by (simp add: parse_dates_try_def str_in_single split_no_sep check_order_same
        split: sum.splits)
qed

lemma length_ten:
  "length t = 10 \<Longrightarrow> \<exists>a b c d e f g h i j. t = [a, b, c, d, e, f, g, h, i, j]"
  by (auto simp: numeral_eq_Suc length_Suc_conv)

lemma strict_shape:
  assumes "strict_yyyy_mm_dd t = Some d"
  obtains y1 y2 y3 y4 m1 m2 d1 d2 where
    "t = [y1, y2, y3, y4, 45, m1, m2, 45, d1, d2]"
    "list_all ascii_digit [y1, y2, y3, y4, m1, m2, d1, d2]"
    "d = Date (decimal [y1, y2, y3, y4]) (decimal [m1, m2]) (decimal [d1, d2])"
    "1 \<le> decimal [y1, y2, y3, y4]"
    "1 \<le> decimal [m1, m2]" "decimal [m1, m2] \<le> 12"
    "1 \<le> decimal [d1, d2]"
    "decimal [d1, d2] \<le> days_in_month (decimal [y1, y2, y3, y4]) (decimal [m1, m2])"
proof -
  define Y where "Y = decimal (take 4 t)"
  define M where "M = decimal (take 2 (drop 5 t))"
  define D where "D = decimal (drop 8 t)"
  have unfolded: "(if length t = 10
        \<and> list_all ascii_digit (take 4 t @ take 2 (drop 5 t) @ drop 8 t)
        \<and> t ! 4 = 45 \<and> t ! 7 = 45
        \<and> 1 \<le> Y \<and> 1 \<le> M \<and> M \<le> 12 \<and> 1 \<le> D \<and> D \<le> days_in_month Y M
      then Some (Date Y M D) else None) = Some d"
    using assms unfolding strict_yyyy_mm_dd_def Let_def Y_def M_def D_def .
  then have c: "length t = 10" "list_all ascii_digit (take 4 t @ take 2 (drop 5 t) @ drop 8 t)"
    "t ! 4 = 45" "t ! 7 = 45" "1 \<le> Y" "1 \<le> M" "M \<le> 12" "1 \<le> D" "D \<le> days_in_month Y M"
    "d = Date Y M D"
    by (auto split: if_splits)
  from c(1) obtain a b c e f g h i j k where t: "t = [a, b, c, e, f, g, h, i, j, k]"
    using length_ten [of t] by auto
  have fi: "f = 45" "i = 45"
    using c(3,4) by (simp_all add: t)
  have Y: "Y = decimal [a, b, c, e]" and M: "M = decimal [g, h]" and D: "D = decimal [j, k]"
    by (simp_all add: Y_def M_def D_def t)
  have dg: "list_all ascii_digit [a, b, c, e, g, h, j, k]"
    using c(2) by (simp add: t)
  show thesis
  proof (rule that [of a b c e g h j k])
    show "t = [a, b, c, e, 45, g, h, 45, j, k]"
      by (simp add: t fi)
  qed (use c dg in \<open>simp_all only: Y M D\<close>)
qed

lemma days_in_month_le: "days_in_month y m \<le> 31"
  by (simp add: days_in_month_def)

lemma decimal_four:
  "decimal [a, b, c, e] = 1000 * (a - 48) + 100 * (b - 48) + 10 * (c - 48) + (e - 48)"
  by (simp add: decimal_def)

lemma year_group_digits:
  "list_all ascii_digit [a, b, c, e] \<Longrightarrow>
   year_group u (a # b # c # e # rest) = [(decimal [a, b, c, e], rest)]"
  unfolding decimal_four by (simp add: digit_value_def ascii_digit_def)

lemma month_then_hyphen:
  assumes "ascii_digit m1" "ascii_digit m2"
    and "1 \<le> decimal [m1, m2]" "decimal [m1, m2] \<le> 12"
  shows "concat (map (\<lambda>(m, r3). concat (map (f m) (hyphen r3))) (month_group (m1 # m2 # 45 # r)))
    = f (decimal [m1, m2]) r"
proof -
  have dec: "decimal [m1, m2] = 10 * (m1 - 48) + (m2 - 48)"
    by (simp add: decimal_def)
  from assms have "m1 = 48 \<or> m1 = 49"
    by (auto simp: ascii_digit_def dec)
  then show ?thesis
    using assms unfolding dec by (auto simp: month_group_def hyphen_def ascii_digit_def)
qed

lemma day_at_end:
  assumes "ascii_digit d1" "ascii_digit d2"
    and "1 \<le> decimal [d1, d2]" "decimal [d1, d2] \<le> 31"
  shows "\<exists>rest. day_group u [d1, d2] = (decimal [d1, d2], []) # rest"
proof -
  have dec: "decimal [d1, d2] = 10 * (d1 - 48) + (d2 - 48)"
    by (simp add: decimal_def)
  from assms have "d1 = 48 \<or> d1 = 49 \<or> d1 = 50 \<or> d1 = 51"
    by (auto simp: ascii_digit_def dec)
  then show ?thesis
    using assms unfolding dec by (auto simp: day_group_def digit_value_def ascii_digit_def)
qed

lemma strict_accepted:
  assumes "strict_yyyy_mm_dd t = Some d"
  shows "strptime u t = Inr d"
proof -
  from assms obtain y1 y2 y3 y4 m1 m2 d1 d2 where
    t: "t = [y1, y2, y3, y4, 45, m1, m2, 45, d1, d2]" and
    dg: "list_all ascii_digit [y1, y2, y3, y4, m1, m2, d1, d2]" and
    d: "d = Date (decimal [y1, y2, y3, y4]) (decimal [m1, m2]) (decimal [d1, d2])" and
    y: "1 \<le> decimal [y1, y2, y3, y4]" and
    m: "1 \<le> decimal [m1, m2]" "decimal [m1, m2] \<le> 12" and
    dd: "1 \<le> decimal [d1, d2]"
      "decimal [d1, d2] \<le> days_in_month (decimal [y1, y2, y3, y4]) (decimal [m1, m2])"
    by (rule strict_shape)
  let ?y = "decimal [y1, y2, y3, y4]"
  let ?m = "decimal [m1, m2]"
  let ?d = "decimal [d1, d2]"
  have yg: "year_group u t = [(?y, [45, m1, m2, 45, d1, d2])]"
    unfolding t using dg by (intro year_group_digits) simp
  have h: "hyphen (45 # r) = [r]" for r
    by (simp add: hyphen_def)
  from dd(2) days_in_month_le [of ?y ?m] have "?d \<le> 31"
    by (rule order_trans)
  with dg dd(1) obtain rest where dayg: "day_group u [d1, d2] = (?d, []) # rest"
    using day_at_end [of d1 d2 u] by auto
  have mh: "concat (map (\<lambda>(m, r3). concat (map (f m) (hyphen r3)))
        (month_group (m1 # m2 # 45 # r))) = f ?m r" for f r
    using dg m by (intro month_then_hyphen) simp_all
  have "format_matches u t = ((?y, ?m, ?d), []) # map (\<lambda>(d, r5). ((?y, ?m, d), r5)) rest"
    unfolding format_matches_def yg
    by (simp add: h mh dayg del: One_nat_def)
  then show ?thesis
    using y dd by (simp add: strptime_def d not_less)
qed


lemma split_append_sep: "sep \<notin> set a \<Longrightarrow> split sep (a @ sep # b) = a # split sep b"
  by (induction a) (simp_all add: Let_def)

lemma strict_no_colon:
  assumes "strict_yyyy_mm_dd s = Some d"
  shows "58 \<notin> set s"
proof -
  from assms obtain y1 y2 y3 y4 m1 m2 d1 d2 where
    s: "s = [y1, y2, y3, y4, 45, m1, m2, 45, d1, d2]" and
    dg: "list_all ascii_digit [y1, y2, y3, y4, m1, m2, d1, d2]"
    by (rule strict_shape)
  from dg show ?thesis
    by (auto simp: s ascii_digit_def)
qed

lemma parse_dates_try_single:
  assumes "strict_yyyy_mm_dd s = Some d"
  shows "parse_dates_try u s = Inr (d, d)"
proof -
  have "split 58 s = [s]"
    using assms by (intro split_no_sep strict_no_colon)
  then show ?thesis
    using assms by (simp add: parse_dates_try_parts strict_accepted)
qed

lemma parse_dates_try_range:
  assumes "strict_yyyy_mm_dd s1 = Some a" and "strict_yyyy_mm_dd s2 = Some b"
  shows "parse_dates_try u (s1 @ 58 # s2) = check_order a b"
proof -
  have "split 58 s2 = [s2]"
    using assms(2) by (intro split_no_sep strict_no_colon)
  moreover have "58 \<notin> set s1"
    using assms(1) by (rule strict_no_colon)
  ultimately have "split 58 (s1 @ 58 # s2) = [s1, s2]"
    by (simp add: split_append_sep)
  then show ?thesis
    using assms by (simp add: parse_dates_try_parts strict_accepted)
qed

text \<open>
  C3. A token without separator in strict \<^verbatim>\<open>YYYY-MM-DD\<close> format gives the date it names
  as start and as end. Two such texts joined by the separator give the two dates as start
  and end when the first is not after the second, and the date error otherwise. The
  tokens \<^verbatim>\<open>2024-06-01\<close> and \<^verbatim>\<open>2024-06-01:2024-06-05\<close> are instances.
\<close>

theorem parse_dates_strict_tokens:
  "(strict_yyyy_mm_dd s = Some d \<longrightarrow> parse_dates u s = ([], Return (d, d)))
   \<and> (strict_yyyy_mm_dd s1 = Some a \<and> strict_yyyy_mm_dd s2 = Some b \<and> date_le a b
      \<longrightarrow> parse_dates u (s1 @ [58] @ s2) = ([], Return (a, b)))
   \<and> (strict_yyyy_mm_dd s1 = Some a \<and> strict_yyyy_mm_dd s2 = Some b \<and> date_gt a b
      \<longrightarrow> parse_dates u (s1 @ [58] @ s2) = ([Print (ErrorParsingDates StartAfterEnd)], SysExit 1))"
  by (simp add: parse_dates_def parse_dates_try_single parse_dates_try_range check_order_def
      date_le_iff)

theorem parse_dates_strict_tokens_witness:
  "strict_yyyy_mm_dd (str ''2024-06-01'') = Some (Date 2024 6 1)
   \<and> strict_yyyy_mm_dd (str ''2024-06-05'') = Some (Date 2024 6 5)
   \<and> parse_dates no_unicode_digits (str ''2024-06-01'')
       = ([], Return (Date 2024 6 1, Date 2024 6 1))
   \<and> parse_dates no_unicode_digits (str ''2024-06-01:2024-06-05'')
       = ([], Return (Date 2024 6 1, Date 2024 6 5))
   \<and> parse_dates no_unicode_digits (str ''2024-06-05:2024-06-01'')
       = ([Print (ErrorParsingDates StartAfterEnd)], SysExit 1)"
proof -
  let ?u = no_unicode_digits
  have s1: "strict_yyyy_mm_dd (str ''2024-06-01'') = Some (Date 2024 6 1)"
    by (simp add: strict_yyyy_mm_dd_def str_def ascii_digit_def days_in_month_def decimal_def)
  have s5: "strict_yyyy_mm_dd (str ''2024-06-05'') = Some (Date 2024 6 5)"
    by (simp add: strict_yyyy_mm_dd_def str_def ascii_digit_def days_in_month_def decimal_def)
  have le: "date_le (Date 2024 6 1) (Date 2024 6 5)"
    by (simp add: date_le_def)
  have gt: "date_gt (Date 2024 6 5) (Date 2024 6 1)"
    by (simp add: date_gt_def)
  have j: "str ''2024-06-01'' @ [58] @ str ''2024-06-05'' = str ''2024-06-01:2024-06-05''"
    "str ''2024-06-05'' @ [58] @ str ''2024-06-01'' = str ''2024-06-05:2024-06-01''"
    by (simp_all add: str_def)
  have "parse_dates ?u (str ''2024-06-01'') = ([], Return (Date 2024 6 1, Date 2024 6 1))"
    using parse_dates_strict_tokens [of "str ''2024-06-01''" "Date 2024 6 1" ?u] s1 by blast
  moreover have "parse_dates ?u (str ''2024-06-01'' @ [58] @ str ''2024-06-05'')
      = ([], Return (Date 2024 6 1, Date 2024 6 5))"
    using parse_dates_strict_tokens [of _ _ ?u "str ''2024-06-01''" "Date 2024 6 1"
        "str ''2024-06-05''" "Date 2024 6 5"] s1 s5 le by blast
  moreover have "parse_dates ?u (str ''2024-06-05'' @ [58] @ str ''2024-06-01'')
      = ([Print (ErrorParsingDates StartAfterEnd)], SysExit 1)"
    using parse_dates_strict_tokens [of _ _ ?u "str ''2024-06-05''" "Date 2024 6 5"
        "str ''2024-06-01''" "Date 2024 6 1"] s1 s5 gt by blast
  ultimately show ?thesis
    using s1 s5 unfolding j by (intro conjI)
qed

text \<open>
  C4, as stated, fails: \<^verbatim>\<open>2024-6-1\<close> is not in strict \<^verbatim>\<open>YYYY-MM-DD\<close> format, and
  \<open>parse_dates\<close> returns normally on it, since \<^verbatim>\<open>strptime\<close> reads a month and a day
  of one digit.
\<close>

theorem lenient_format_counterexample:
  "strict_yyyy_mm_dd (str ''2024-6-1'') = None
   \<and> parse_dates no_unicode_digits (str ''2024-6-1'')
       = ([], Return (Date 2024 6 1, Date 2024 6 1))"
  by (simp add: strict_yyyy_mm_dd_def parse_dates_def parse_dates_try_def check_order_def
      date_gt_def strptime_eval str_def)

lemma list_parts:
  obtains "xs = []" | a where "xs = [a]" | a b where "xs = [a, b]" | "2 < length xs"
proof (cases xs)
  case Nil
  then show ?thesis by (rule that(1))
next
  case (Cons a ys)
  show ?thesis
  proof (cases ys)
    case Nil
    with Cons show ?thesis by (intro that(2)) simp
  next
    case ys: (Cons b zs)
    show ?thesis
    proof (cases zs)
      case Nil
      with Cons ys show ?thesis by (intro that(3)) simp
    next
      case (Cons c ws)
      with \<open>xs = a # ys\<close> ys show ?thesis by (intro that(4)) simp
    qed
  qed
qed

text \<open>
  C4, amended. \<open>parse_dates\<close> prints the date error and exits with status 1 exactly when
  the token has more than one separator, or \<^verbatim>\<open>strptime\<close> rejects a part, or the start
  is after the end; otherwise it returns a pair with start before or equal to end, and
  any pair it returns is so ordered. \<^verbatim>\<open>strptime\<close> accepts every text in strict
  \<^verbatim>\<open>YYYY-MM-DD\<close> format, with the date the text names.
\<close>

theorem parse_dates_failure:
  "((\<exists>e. parse_dates u s = ([Print (ErrorParsingDates e)], SysExit 1)) \<longleftrightarrow>
      (2 < length (split 58 s)
       \<or> (\<exists>t\<in>set (split 58 s). \<exists>e. strptime u t = Inl e)
       \<or> (\<exists>a b. strptime u (hd (split 58 s)) = Inr a
             \<and> strptime u (last (split 58 s)) = Inr b \<and> date_gt a b)))
   \<and> ((\<exists>e. parse_dates u s = ([Print (ErrorParsingDates e)], SysExit 1))
       \<or> (\<exists>a b. parse_dates u s = ([], Return (a, b)) \<and> date_le a b))
   \<and> (parse_dates u s = (out, Return (a, b)) \<longrightarrow> date_le a b)
   \<and> (strict_yyyy_mm_dd t = Some d \<longrightarrow> strptime u t = Inr d)"
proof -
  have strict: "strict_yyyy_mm_dd t = Some d \<longrightarrow> strptime u t = Inr d"
    by (simp add: strict_accepted)
  show ?thesis
  proof (cases "split 58 s" rule: list_parts)
    case 1
    then show ?thesis
      by (simp add: split_not_Nil)
  next
    case (2 t1)
    then show ?thesis
      using strict
      by (cases "strptime u t1")
        (auto simp: parse_dates_def parse_dates_try_parts date_le_def date_gt_def)
  next
    case (3 t1 t2)
    then show ?thesis
      using strict
      by (cases "strptime u t1"; cases "strptime u t2")
        (auto simp: parse_dates_def parse_dates_try_parts check_order_def date_le_iff)
  next
    case 4
    then have "parse_dates_try u s = Inl TooManyValues"
      by (auto simp: parse_dates_try_parts split: list.splits)
    with 4 strict show ?thesis
      by (simp add: parse_dates_def)
  qed
qed

theorem parse_dates_failure_witness:
  "(\<exists>e. parse_dates no_unicode_digits (str ''2024-06-05:2024-06-01'')
        = ([Print (ErrorParsingDates e)], SysExit 1))
   \<and> (\<exists>e. parse_dates no_unicode_digits (str ''06-01-2024'')
        = ([Print (ErrorParsingDates e)], SysExit 1))
   \<and> parse_dates no_unicode_digits (str ''2024-06-01:2024-06-05'')
       = ([], Return (Date 2024 6 1, Date 2024 6 5))
   \<and> date_le (Date 2024 6 1) (Date 2024 6 5)
   \<and> strict_yyyy_mm_dd (str ''2024-06-01'') = Some (Date 2024 6 1)
   \<and> strptime no_unicode_digits (str ''2024-06-01'') = Inr (Date 2024 6 1)"
proof -
  let ?u = no_unicode_digits
  have sp: "split 58 (str ''2024-06-05:2024-06-01'') = [str ''2024-06-05'', str ''2024-06-01'']"
    by (simp add: str_def)
  have "strptime ?u (str ''2024-06-05'') = Inr (Date 2024 6 5)"
    "strptime ?u (str ''2024-06-01'') = Inr (Date 2024 6 1)"
    "date_gt (Date 2024 6 5) (Date 2024 6 1)"
    by (simp_all add: strptime_eval str_def date_gt_def)
  then have order: "\<exists>a b. strptime ?u (hd (split 58 (str ''2024-06-05:2024-06-01''))) = Inr a
      \<and> strptime ?u (last (split 58 (str ''2024-06-05:2024-06-01''))) = Inr b \<and> date_gt a b"
    by (simp add: sp)
  have sp': "split 58 (str ''06-01-2024'') = [str ''06-01-2024'']"
    by (simp add: str_def)
  have "strptime ?u (str ''06-01-2024'') = Inl (NoFormatMatch (str ''06-01-2024''))"
    by (simp add: strptime_eval str_def)
  then have fmt: "\<exists>t\<in>set (split 58 (str ''06-01-2024'')). \<exists>e. strptime ?u t = Inl e"
    by (simp add: sp')
  have ok: "parse_dates ?u (str ''2024-06-01:2024-06-05'')
      = ([], Return (Date 2024 6 1, Date 2024 6 5))"
    by (simp add: parse_dates_def parse_dates_try_def check_order_def date_gt_def
        strptime_eval str_def)
  have st: "strict_yyyy_mm_dd (str ''2024-06-01'') = Some (Date 2024 6 1)"
    by (simp add: strict_yyyy_mm_dd_def str_def ascii_digit_def days_in_month_def decimal_def)
  show ?thesis
    using parse_dates_failure [of ?u "str ''2024-06-05:2024-06-01''"] order
      parse_dates_failure [of ?u "str ''06-01-2024''"] fmt
      parse_dates_failure [of ?u "str ''2024-06-01:2024-06-05''" "[]" "Date 2024 6 1"
        "Date 2024 6 5" "str ''2024-06-01''" "Date 2024 6 1"] ok st
    by blast
qed

section \<open>Properties of \<open>fetch_weather\<close> and \<open>main\<close>\<close>

lemma parse_dates_outcome:
  "(\<exists>p. parse_dates u s = ([], Return p))
   \<or> (\<exists>e. parse_dates u s = ([Print (ErrorParsingDates e)], SysExit 1))"
  by (cases "parse_dates_try u s") (simp_all add: parse_dates_def)

lemma url_encode_safe: "list_all path_safe s \<Longrightarrow> url_encode s = s"
  by (induction s) (simp_all add: url_encode_def)

lemma fetch_weather_events:
  "\<exists>rest. fst (fetch_weather net nation city a b key)
       = HttpGet (timeline_url nation city a b key) # rest
     \<and> \<not> list_ex is_request rest"
  by (cases "net (timeline_url nation city a b key)")
    (simp_all add: fetch_weather_def Let_def split: decoding.splits)

text \<open>
  C7. When the provider answers with a status other than 200, \<open>fetch_weather\<close> prints the
  diagnostic with the status code and the response text and exits with status 1; the run
  of the program is the request and that diagnostic, with no table.
\<close>

theorem non_200_is_fatal:
  assumes "status \<noteq> 200"
    and "http_get P (timeline_url (args_nation args) (args_city args) a b k)
         = Response status body decoded"
    and "parse_dates (udigit P) (args_date args) = ([], Return (a, b))"
    and "k \<noteq> []"
  shows "fetch_weather (http_get P) (args_nation args) (args_city args) a b k
           = ([HttpGet (timeline_url (args_nation args) (args_city args) a b k),
               Print (ErrorFetching status body)], SysExit 1)
       \<and> main P (Some k) args
           = ([HttpGet (timeline_url (args_nation args) (args_city args) a b k),
               Print (ErrorFetching status body)], SysExit 1)
       \<and> exit_status (snd (main P (Some k) args)) \<noteq> 0
       \<and> \<not> list_ex is_table (fst (main P (Some k) args))"
proof -
  have f: "fetch_weather (http_get P) (args_nation args) (args_city args) a b k
      = ([HttpGet (timeline_url (args_nation args) (args_city args) a b k),
          Print (ErrorFetching status body)], SysExit 1)"
    using assms(1,2) by (simp add: fetch_weather_def Let_def)
  have m: "main P (Some k) args
      = ([HttpGet (timeline_url (args_nation args) (args_city args) a b k),
          Print (ErrorFetching status body)], SysExit 1)"
    using assms(3,4) by (simp add: main_def f)
  show ?thesis
    by (simp add: f m exit_status_def)
qed

theorem non_200_is_fatal_witness:
  "main (ascii_platform (\<lambda>url. Response 401 (str ''No API key'') JsonRequestException)) (Some (str ''K''))
     \<lparr>args_nation = str ''FR'', args_city = str ''Paris'', args_date = str ''2024-06-01''\<rparr>
   = ([HttpGet (timeline_url (str ''FR'') (str ''Paris'') (Date 2024 6 1) (Date 2024 6 1)
                 (str ''K'')),
       Print (ErrorFetching 401 (str ''No API key''))], SysExit 1)"
proof -
  let ?P = "ascii_platform (\<lambda>url. Response 401 (str ''No API key'') JsonRequestException)"
  let ?args = "\<lparr>args_nation = str ''FR'', args_city = str ''Paris'',
    args_date = str ''2024-06-01''\<rparr>"
  have s: "(401::int) \<noteq> 200"
    by simp
  have h: "http_get ?P (timeline_url (args_nation ?args) (args_city ?args) (Date 2024 6 1)
      (Date 2024 6 1) (str ''K'')) = Response 401 (str ''No API key'') JsonRequestException"
    by (simp add: ascii_platform_def)
  have p: "parse_dates (udigit ?P) (args_date ?args) = ([], Return (Date 2024 6 1, Date 2024 6 1))"
    by (simp add: ascii_platform_def parse_dates_def parse_dates_try_def check_order_def
        date_gt_def strptime_eval str_def)
  have k: "str ''K'' \<noteq> []"
    by (simp add: str_def)
  from non_200_is_fatal [OF s h p k] show ?thesis
    by simp
qed

text \<open>
  C6. When the provider answers 200 with an object whose \<^verbatim>\<open>days\<close> is absent or an empty
  list, the run is the request, the banner and the notice, it ends with status 0, and no
  table is printed.
\<close>

theorem empty_days_is_success:
  assumes "parse_dates (udigit P) (args_date args) = ([], Return (a, b))"
    and "k \<noteq> []"
    and "http_get P (timeline_url (args_nation args) (args_city args) a b k)
         = Response 200 body (Decoded (JObject d))"
    and "d (str ''days'') = None \<or> d (str ''days'') = Some (JArray [])"
  shows "main P (Some k) args
           = ([HttpGet (timeline_url (args_nation args) (args_city args) a b k),
               Print (Banner (args_city args) (args_nation args) a b),
               Print NoWeatherData], SysExit 0)
       \<and> exit_status (snd (main P (Some k) args)) = 0
       \<and> \<not> list_ex is_table (fst (main P (Some k) args))"
proof -
  have f: "fetch_weather (http_get P) (args_nation args) (args_city args) a b k
      = ([HttpGet (timeline_url (args_nation args) (args_city args) a b k)],
         Return (JObject d))"
    using assms(3) by (simp add: fetch_weather_def Let_def)
  have "dict_get d (str ''days'') (JArray []) = JArray []"
    using assms(4) by (auto simp: dict_get_def)
  then have r: "render_days P (JObject d) = ([Print NoWeatherData], SysExit 0)"
    by (simp add: render_days_def Let_def truthy_def)
  have m: "main P (Some k) args
      = ([HttpGet (timeline_url (args_nation args) (args_city args) a b k),
          Print (Banner (args_city args) (args_nation args) a b),
          Print NoWeatherData], SysExit 0)"
    using assms(1,2) by (simp add: main_def f r)
  show ?thesis
    by (simp add: m exit_status_def)
qed

theorem empty_days_is_success_witness:
  "main (ascii_platform (\<lambda>url. Response 200 (str ''{}'') (Decoded (JObject Map.empty))))
     (Some (str ''K''))
     \<lparr>args_nation = str ''FR'', args_city = str ''Paris'', args_date = str ''2024-06-01''\<rparr>
   = ([HttpGet (timeline_url (str ''FR'') (str ''Paris'') (Date 2024 6 1) (Date 2024 6 1)
                 (str ''K'')),
       Print (Banner (str ''Paris'') (str ''FR'') (Date 2024 6 1) (Date 2024 6 1)),
       Print NoWeatherData], SysExit 0)
   \<and> main (ascii_platform (\<lambda>url. Response 200 empty_days_text
             (Decoded (JObject [str ''days'' \<mapsto> JArray []]))))
     (Some (str ''K''))
     \<lparr>args_nation = str ''FR'', args_city = str ''Paris'', args_date = str ''2024-06-01''\<rparr>
   = ([HttpGet (timeline_url (str ''FR'') (str ''Paris'') (Date 2024 6 1) (Date 2024 6 1)
                 (str ''K'')),
       Print (Banner (str ''Paris'') (str ''FR'') (Date 2024 6 1) (Date 2024 6 1)),
       Print NoWeatherData], SysExit 0)"
proof -
  let ?P = "ascii_platform (\<lambda>url. Response 200 (str ''{}'') (Decoded (JObject Map.empty)))"
  let ?Q = "ascii_platform (\<lambda>url. Response 200 empty_days_text
             (Decoded (JObject [str ''days'' \<mapsto> JArray []])))"
  let ?args = "\<lparr>args_nation = str ''FR'', args_city = str ''Paris'',
    args_date = str ''2024-06-01''\<rparr>"
  have p: "parse_dates (udigit ?P) (args_date ?args) = ([], Return (Date 2024 6 1, Date 2024 6 1))"
    "parse_dates (udigit ?Q) (args_date ?args) = ([], Return (Date 2024 6 1, Date 2024 6 1))"
    by (simp_all add: ascii_platform_def parse_dates_def parse_dates_try_def check_order_def
        date_gt_def strptime_eval str_def)
  have k: "str ''K'' \<noteq> []"
    by (simp add: str_def)
  have h: "http_get ?P (timeline_url (args_nation ?args) (args_city ?args) (Date 2024 6 1)
      (Date 2024 6 1) (str ''K'')) = Response 200 (str ''{}'') (Decoded (JObject Map.empty))"
    "http_get ?Q (timeline_url (args_nation ?args) (args_city ?args) (Date 2024 6 1)
      (Date 2024 6 1) (str ''K''))
      = Response 200 empty_days_text (Decoded (JObject [str ''days'' \<mapsto> JArray []]))"
    by (simp_all add: ascii_platform_def)
  have d: "Map.empty (str ''days'') = None \<or> Map.empty (str ''days'') = Some (JArray [])"
    "[str ''days'' \<mapsto> JArray []] (str ''days'') = None
      \<or> [str ''days'' \<mapsto> JArray []] (str ''days'') = Some (JArray [])"
    by simp_all
  from empty_days_is_success [OF p(1) k h(1) d(1)] empty_days_is_success [OF p(2) k h(2) d(2)]
  show ?thesis
    by simp
qed

text \<open>
  C8, as stated, fails: the source puts the location into the path as it is. For the city
  \<^verbatim>\<open>Paris?x\<close> the URL handed to \<^verbatim>\<open>requests.get\<close> has the question mark in the path,
  where the encoded location has \<^verbatim>\<open>%3F\<close>.
\<close>

theorem raw_location_counterexample:
  "fst (fetch_weather offline (str ''FR'') (str ''Paris?x'') (Date 2024 6 1) (Date 2024 6 5)
      (str ''K''))
   = [HttpGet (str ''https://weather.visualcrossing.com/VisualCrossingWebServices/rest/services/timeline/Paris?x,FR/2024-06-01/2024-06-05?unitGroup=metric&key=K&include=days''),
      Print RequestFailed]
   \<and> encoded_timeline_url (str ''FR'') (str ''Paris?x'') (Date 2024 6 1) (Date 2024 6 5)
      (str ''K'')
   = str ''https://weather.visualcrossing.com/VisualCrossingWebServices/rest/services/timeline/Paris%3Fx,FR/2024-06-01/2024-06-05?unitGroup=metric&key=K&include=days''
   \<and> timeline_url (str ''FR'') (str ''Paris?x'') (Date 2024 6 1) (Date 2024 6 5) (str ''K'')
      \<noteq> encoded_timeline_url (str ''FR'') (str ''Paris?x'') (Date 2024 6 1) (Date 2024 6 5)
          (str ''K'')"
  by (simp add: fetch_weather_def offline_def timeline_url_def encoded_timeline_url_def
      isoformat_def url_encode_def path_safe_def utf8_def percent_def hex_digit_def str_def)

text \<open>
  C8, amended. \<open>fetch_weather\<close> makes one request, its first event, to the URL that has
  the city, a comma and the nation as they are in the path after the timeline endpoint,
  then the two ISO dates, then the query for metric units, the key and the day records.
  Where city and nation consist of code points that may stand in a path segment, this is
  the URL with the encoded location.
\<close>

theorem timeline_request:
  "(\<exists>rest. fst (fetch_weather net nation city a b key)
        = HttpGet (timeline_url nation city a b key) # rest
      \<and> \<not> list_ex is_request rest)
   \<and> timeline_url nation city a b key
      = str ''https://weather.visualcrossing.com/VisualCrossingWebServices/rest/services/timeline/''
        @ city @ [44] @ nation @ [47] @ isoformat a @ [47] @ isoformat b
        @ str ''?unitGroup=metric&key='' @ key @ str ''&include=days''
   \<and> (list_all path_safe (city @ nation)
      \<longrightarrow> timeline_url nation city a b key = encoded_timeline_url nation city a b key)"
proof (intro conjI impI)
  show "\<exists>rest. fst (fetch_weather net nation city a b key)
        = HttpGet (timeline_url nation city a b key) # rest
      \<and> \<not> list_ex is_request rest"
    by (rule fetch_weather_events)
  show "timeline_url nation city a b key
      = str ''https://weather.visualcrossing.com/VisualCrossingWebServices/rest/services/timeline/''
        @ city @ [44] @ nation @ [47] @ isoformat a @ [47] @ isoformat b
        @ str ''?unitGroup=metric&key='' @ key @ str ''&include=days''"
    by (simp add: timeline_url_def Let_def str_def)
  assume "list_all path_safe (city @ nation)"
  then have "list_all path_safe (city @ str '','' @ nation)"
    by (simp add: str_def path_safe_def)
  then show "timeline_url nation city a b key = encoded_timeline_url nation city a b key"
    by (simp add: timeline_url_def encoded_timeline_url_def Let_def url_encode_safe)
qed

theorem timeline_request_witness:
  "list_all path_safe (str ''Paris'' @ str ''FR'')
   \<and> encoded_timeline_url (str ''FR'') (str ''Paris'') (Date 2024 6 1) (Date 2024 6 5) (str ''K'')
     = str ''https://weather.visualcrossing.com/VisualCrossingWebServices/rest/services/timeline/Paris,FR/2024-06-01/2024-06-05?unitGroup=metric&key=K&include=days''
   \<and> timeline_url (str ''FR'') (str ''Paris'') (Date 2024 6 1) (Date 2024 6 5) (str ''K'')
     = encoded_timeline_url (str ''FR'') (str ''Paris'') (Date 2024 6 1) (Date 2024 6 5)
         (str ''K'')"
proof -
  have safe: "list_all path_safe (str ''Paris'' @ str ''FR'')"
    by (simp add: path_safe_def str_def)
  have enc: "encoded_timeline_url (str ''FR'') (str ''Paris'') (Date 2024 6 1) (Date 2024 6 5)
      (str ''K'')
    = str ''https://weather.visualcrossing.com/VisualCrossingWebServices/rest/services/timeline/Paris,FR/2024-06-01/2024-06-05?unitGroup=metric&key=K&include=days''"
    by (simp add: encoded_timeline_url_def isoformat_def url_encode_def path_safe_def str_def)
  from timeline_request [of offline "str ''FR''" "str ''Paris''" "Date 2024 6 1" "Date 2024 6 5"
      "str ''K''"] safe
  have "timeline_url (str ''FR'') (str ''Paris'') (Date 2024 6 1) (Date 2024 6 5) (str ''K'')
    = encoded_timeline_url (str ''FR'') (str ''Paris'') (Date 2024 6 1) (Date 2024 6 5)
        (str ''K'')"
    by blast
  with safe enc show ?thesis
    by (intro conjI)
qed

text \<open>
  C10, as stated, fails: the date is parsed before the key is read. With an empty key and
  a date that does not parse, the program prints the date error, not the guidance.
\<close>

theorem empty_key_bad_date_counterexample:
  "main (ascii_platform offline) (Some [])
     \<lparr>args_nation = str ''FR'', args_city = str ''Paris'', args_date = str ''tomorrow''\<rparr>
   = ([Print (ErrorParsingDates (NoFormatMatch (str ''tomorrow'')))], SysExit 1)
   \<and> Print (ErrorParsingDates (NoFormatMatch (str ''tomorrow''))) \<noteq> Print PleaseSetApiKey"
  by (simp add: main_def ascii_platform_def parse_dates_def parse_dates_try_def
      no_unicode_digits_def strptime_eval str_def)

text \<open>
  C10, amended. An empty key is treated as an absent one: the run is the same. It ends
  with status 1 and makes no request. When the date argument parses, the run prints the
  guidance and nothing else; when it does not, the run is the failed date parsing.
\<close>

theorem empty_key_like_absent:
  "main P (Some []) args = main P None args
   \<and> exit_status (snd (main P (Some []) args)) = 1
   \<and> \<not> list_ex is_request (fst (main P (Some []) args))
   \<and> (parse_dates (udigit P) (args_date args) = ([], Return (a, b))
       \<longrightarrow> main P (Some []) args = ([Print PleaseSetApiKey], SysExit 1))
   \<and> (parse_dates (udigit P) (args_date args) = ([Print (ErrorParsingDates e)], SysExit 1)
       \<longrightarrow> main P (Some []) args = ([Print (ErrorParsingDates e)], SysExit 1))"
  using parse_dates_outcome [of "udigit P" "args_date args"]
  by (auto simp: main_def exit_status_def)

theorem empty_key_like_absent_witness:
  "main (ascii_platform offline) (Some [])
     \<lparr>args_nation = str ''FR'', args_city = str ''Paris'', args_date = str ''2024-06-01''\<rparr>
   = ([Print PleaseSetApiKey], SysExit 1)
   \<and> main (ascii_platform offline) None
     \<lparr>args_nation = str ''FR'', args_city = str ''Paris'', args_date = str ''2024-06-01''\<rparr>
   = ([Print PleaseSetApiKey], SysExit 1)
   \<and> main (ascii_platform offline) (Some [])
     \<lparr>args_nation = str ''FR'', args_city = str ''Paris'', args_date = str ''tomorrow''\<rparr>
   = ([Print (ErrorParsingDates (NoFormatMatch (str ''tomorrow'')))], SysExit 1)"
proof -
  let ?P = "ascii_platform offline"
  let ?good = "\<lparr>args_nation = str ''FR'', args_city = str ''Paris'',
    args_date = str ''2024-06-01''\<rparr>"
  let ?bad = "\<lparr>args_nation = str ''FR'', args_city = str ''Paris'',
    args_date = str ''tomorrow''\<rparr>"
  have p: "parse_dates (udigit ?P) (args_date ?good)
      = ([], Return (Date 2024 6 1, Date 2024 6 1))"
    by (simp add: ascii_platform_def parse_dates_def parse_dates_try_def check_order_def
        date_gt_def strptime_eval str_def)
  have q: "parse_dates (udigit ?P) (args_date ?bad)
      = ([Print (ErrorParsingDates (NoFormatMatch (str ''tomorrow'')))], SysExit 1)"
    by (simp add: ascii_platform_def parse_dates_def parse_dates_try_def
        no_unicode_digits_def strptime_eval str_def)
  note good = empty_key_like_absent [of ?P ?good "Date 2024 6 1" "Date 2024 6 1"]
  note bad = empty_key_like_absent [of ?P ?bad _ _ "NoFormatMatch (str ''tomorrow'')"]
  have g1: "main ?P (Some []) ?good = ([Print PleaseSetApiKey], SysExit 1)"
    using good p by blast
  moreover have "main ?P None ?good = ([Print PleaseSetApiKey], SysExit 1)"
    using good g1 by metis
  moreover have "main ?P (Some []) ?bad
      = ([Print (ErrorParsingDates (NoFormatMatch (str ''tomorrow'')))], SysExit 1)"
    using bad q by blast
  ultimately show ?thesis
    by (intro conjI)
qed

end
